theory Spec2Isabelle
  imports Main "HOL-Library.Word"
begin

section \<open>Values of the plugin framework\<close>

text \<open>
  The attribute values of \<^verbatim>\<open>terraform-plugin-framework/types\<close>: every value is null,
  unknown or known. The accessors \<^verbatim>\<open>ValueString\<close>, \<^verbatim>\<open>ValueBool\<close> and
  \<^verbatim>\<open>ValueInt64\<close> return the zero value of the Go type for a null or unknown value.
\<close>

datatype tf_string = StringNull | StringUnknown | StringValue string
datatype tf_bool = BoolNull | BoolUnknown | BoolValue bool
datatype tf_int64 = Int64Null | Int64Unknown | Int64Value "64 word"
datatype tf_list = ListNull | ListUnknown | ListValue "tf_string list"

text \<open>Go's \<^verbatim>\<open>int\<close> on the 64-bit targets the provider is built for.\<close>

type_synonym go_int = "64 word"

fun ValueString :: "tf_string \<Rightarrow> string" where
  "ValueString (StringValue s) = s"
| "ValueString StringNull = []"
| "ValueString StringUnknown = []"

fun String_IsNull :: "tf_string \<Rightarrow> bool" where
  "String_IsNull StringNull = True"
| "String_IsNull StringUnknown = False"
| "String_IsNull (StringValue s) = False"

fun ValueBool :: "tf_bool \<Rightarrow> bool" where
  "ValueBool (BoolValue b) = b"
| "ValueBool BoolNull = False"
| "ValueBool BoolUnknown = False"

fun ValueInt64 :: "tf_int64 \<Rightarrow> 64 word" where
  "ValueInt64 (Int64Value v) = v"
| "ValueInt64 Int64Null = 0"
| "ValueInt64 Int64Unknown = 0"

fun Int64_IsNull :: "tf_int64 \<Rightarrow> bool" where
  "Int64_IsNull Int64Null = True"
| "Int64_IsNull Int64Unknown = False"
| "Int64_IsNull (Int64Value v) = False"

fun Int64_IsUnknown :: "tf_int64 \<Rightarrow> bool" where
  "Int64_IsUnknown Int64Unknown = True"
| "Int64_IsUnknown Int64Null = False"
| "Int64_IsUnknown (Int64Value v) = False"

fun List_IsNull :: "tf_list \<Rightarrow> bool" where
  "List_IsNull ListNull = True"
| "List_IsNull ListUnknown = False"
| "List_IsNull (ListValue xs) = False"

text \<open>\<^verbatim>\<open>types.StringPointerValue\<close> and \<^verbatim>\<open>types.Int64PointerValue\<close>: a nil pointer is the
  null value.\<close>

fun StringPointerValue :: "string option \<Rightarrow> tf_string" where
  "StringPointerValue None = StringNull"
| "StringPointerValue (Some s) = StringValue s"

fun Int64PointerValue :: "64 word option \<Rightarrow> tf_int64" where
  "Int64PointerValue None = Int64Null"
| "Int64PointerValue (Some v) = Int64Value v"

subsection \<open>Diagnostics\<close>

datatype severity = SeverityError | SeverityWarning

text \<open>A message is a literal or a \<^verbatim>\<open>fmt.Sprintf\<close> call, kept as the format with its
  arguments (an \<^verbatim>\<open>error\<close> argument is its message).\<close>

datatype message = Literal string | Sprintf string "string list"

datatype diagnostic = Diagnostic (Severity: severity) (Summary: string) (Detail: message)

fun HasError :: "diagnostic list \<Rightarrow> bool" where
  "HasError [] = False"
| "HasError (d # ds) = (if Severity d = SeverityError then True else HasError ds)"

text \<open>\<^verbatim>\<open>Diagnostics.Append\<close> skips a diagnostic that the collection already holds.\<close>

fun Append :: "diagnostic list \<Rightarrow> diagnostic list \<Rightarrow> diagnostic list" where
  "Append ds [] = ds"
| "Append ds (d # rest) = Append (if d \<in> set ds then ds else ds @ [d]) rest"

definition AddError :: "diagnostic list \<Rightarrow> string \<Rightarrow> message \<Rightarrow> diagnostic list" where
  "AddError ds summary detail = Append ds [Diagnostic SeverityError summary detail]"

subsection \<open>Lists of strings\<close>

text \<open>\<^verbatim>\<open>types.ListValueFrom(ctx, types.StringType, ids)\<close> of a Go string slice: a known
  list of known strings, and no diagnostic.\<close>

definition ListValueFrom :: "string list \<Rightarrow> tf_list \<times> diagnostic list" where
  "ListValueFrom ids = (ListValue (map StringValue ids), [])"

fun known_strings :: "tf_string list \<Rightarrow> string list option" where
  "known_strings [] = Some []"
| "known_strings (StringValue s # xs) =
     (case known_strings xs of None \<Rightarrow> None | Some ys \<Rightarrow> Some (s # ys))"
| "known_strings (StringNull # xs) = None"
| "known_strings (StringUnknown # xs) = None"

definition ValueConversionError :: diagnostic where
  "ValueConversionError = Diagnostic SeverityError ''Value Conversion Error'' (Literal [])"

text \<open>\<^verbatim>\<open>List.ElementsAs(ctx, &childIds, false)\<close> into a \<^verbatim>\<open>[]string\<close>: a known list whose
  elements are all known converts to their strings; an unknown list, or a null or
  unknown element, is a conversion error and leaves the target nil. (The text of
  the library's error is not modelled.)\<close>

fun ElementsAs :: "tf_list \<Rightarrow> diagnostic list \<times> string list" where
  "ElementsAs ListNull = ([], [])"
| "ElementsAs ListUnknown = ([ValueConversionError], [])"
| "ElementsAs (ListValue xs) =
     (case known_strings xs of None \<Rightarrow> ([ValueConversionError], []) | Some ids \<Rightarrow> ([], ids))"

subsection \<open>Package strings\<close>

text \<open>\<^verbatim>\<open>strings.Join(elems, sep)\<close> and \<^verbatim>\<open>strings.Split(s, sep)\<close> for a one-byte
  separator.\<close>

fun Join :: "string list \<Rightarrow> string \<Rightarrow> string" where
  "Join [] sep = []"
| "Join [x] sep = x"
| "Join (x # y # ys) sep = x @ sep @ Join (y # ys) sep"

fun Split :: "string \<Rightarrow> char \<Rightarrow> string list" where
  "Split [] sep = [[]]"
| "Split (c # cs) sep =
     (if c = sep then [] # Split cs sep
      else (case Split cs sep of [] \<Rightarrow> [[c]] | p # ps \<Rightarrow> (c # p) # ps))"

section \<open>Package factory\<close>

definition IntPtrToInt64Ptr :: "go_int option \<Rightarrow> 64 word option" where
  "IntPtrToInt64Ptr i = (case i of None \<Rightarrow> None | Some x \<Rightarrow> Some (scast x))"

definition Int64ToPtr :: "tf_int64 \<Rightarrow> go_int option" where
  "Int64ToPtr v =
     (if Int64_IsNull v \<or> Int64_IsUnknown v then None else Some (scast (ValueInt64 v)))"

section \<open>The repository resource\<close>

subsection \<open>Data\<close>

record RepositoryResourceModel =
  m_Name :: tf_string
  m_Id :: tf_string
  m_WorkspaceId :: tf_string
  m_PackageType :: tf_string
  m_RepositoryType :: tf_string
  m_RepositoryId :: tf_string
  m_RemoteRepositoryUrl :: tf_string
  m_RemoteRepositoryUsername :: tf_string
  m_RemoteRepositoryPassword :: tf_string
  m_RemoteCacheEnabled :: tf_bool
  m_FileCacheTimeTillRevalidation :: tf_int64
  m_MetadataCacheTimeTillRevalidation :: tf_int64
  m_ChildRepositoryIds :: tf_list
  m_UploadLocalRepositoryId :: tf_string

text \<open>The records of the client library \<^verbatim>\<open>go-repoflow\<close>, with the fields the
  resource reads or writes. A Go pointer field is an option, and so is a slice
  that the code compares with nil.\<close>

record Workspace =
  ws_Id :: string
  ws_Name :: string

record ChildRepository =
  child_Id :: string

record Repository =
  rp_Id :: string
  rp_Name :: string
  rp_RepositoryType :: string
  rp_PackageType :: string
  rp_RemoteRepositoryUrl :: "string option"
  rp_RemoteRepositoryUsername :: "string option"
  rp_RemoteRepositoryPassword :: "string option"
  rp_IsRemoteCacheEnabled :: bool
  rp_FileCacheTimeTillRevalidation :: "go_int option"
  rp_MetadataCacheTimeTillRevalidation :: "go_int option"
  rp_UploadLocalRepositoryId :: "string option"
  rp_ChildRepositories :: "ChildRepository list option"

record DeletedRepository =
  del_RepositoryId :: string

record RepositoryOptions =
  lo_Name :: string
  lo_PackageType :: string

record RepositoryRemoteOptions =
  ro_Name :: string
  ro_PackageType :: string
  ro_RemoteRepositoryUrl :: string
  ro_RemoteRepositoryUsername :: string
  ro_RemoteRepositoryPassword :: string
  ro_IsRemoteCacheEnabled :: bool
  ro_FileCacheTimeTillRevalidation :: "go_int option"
  ro_MetadataCacheTimeTillRevalidation :: "go_int option"

record RepositoryVirtualOptions =
  vo_Name :: string
  vo_PackageType :: string
  vo_ChildRepositoryIds :: "string list"
  vo_UploadLocalRepositoryId :: string

subsection \<open>The client and what an invocation leaves behind\<close>

text \<open>
  The methods of \<^verbatim>\<open>repoflow.Client\<close> that the resource calls. The client is outside
  this repository, so each method is a parameter: it returns the error's message
  (\<open>Inl\<close>) or a non-nil result (\<open>Inr\<close>). No invocation calls a method twice, so a
  function of the arguments is enough.
\<close>

record Client =
  GetWorkspace :: "string \<Rightarrow> string + Workspace"
  CreateLocalRepository :: "string \<Rightarrow> RepositoryOptions \<Rightarrow> string + Repository"
  CreateRemoteRepository :: "string \<Rightarrow> RepositoryRemoteOptions \<Rightarrow> string + Repository"
  CreateVirtualRepository :: "string \<Rightarrow> RepositoryVirtualOptions \<Rightarrow> string + Repository"
  GetRepository :: "string \<Rightarrow> string \<Rightarrow> string + Repository"
  DeleteRepository :: "string \<Rightarrow> string \<Rightarrow> string + DeletedRepository"

datatype client_call =
    CallGetWorkspace string
  | CallCreateLocalRepository string RepositoryOptions
  | CallCreateRemoteRepository string RepositoryRemoteOptions
  | CallCreateVirtualRepository string RepositoryVirtualOptions
  | CallGetRepository string string
  | CallDeleteRepository string string

fun is_create_call :: "client_call \<Rightarrow> bool" where
  "is_create_call (CallCreateLocalRepository w opts) = True"
| "is_create_call (CallCreateRemoteRepository w opts) = True"
| "is_create_call (CallCreateVirtualRepository w opts) = True"
| "is_create_call (CallGetWorkspace w) = False"
| "is_create_call (CallGetRepository w r) = False"
| "is_create_call (CallDeleteRepository w r) = False"

text \<open>The workspace argument of a call, and what the client answers to a create call.\<close>

fun call_workspace :: "client_call \<Rightarrow> string" where
  "call_workspace (CallGetWorkspace w) = w"
| "call_workspace (CallCreateLocalRepository w opts) = w"
| "call_workspace (CallCreateRemoteRepository w opts) = w"
| "call_workspace (CallCreateVirtualRepository w opts) = w"
| "call_workspace (CallGetRepository w r) = w"
| "call_workspace (CallDeleteRepository w r) = w"

fun create_result :: "Client \<Rightarrow> client_call \<Rightarrow> (string + Repository) option" where
  "create_result c (CallCreateLocalRepository w opts) = Some (CreateLocalRepository c w opts)"
| "create_result c (CallCreateRemoteRepository w opts) = Some (CreateRemoteRepository c w opts)"
| "create_result c (CallCreateVirtualRepository w opts) = Some (CreateVirtualRepository c w opts)"
| "create_result c (CallGetWorkspace w) = None"
| "create_result c (CallGetRepository w r) = None"
| "create_result c (CallDeleteRepository w r) = None"

text \<open>An entry of \<^verbatim>\<open>tflog\<close>: the level, the message and the fields, in the order the
  source writes them.\<close>

datatype log_level = Trace | Debug

datatype log_value =
    LogString string
  | LogLocalOpts RepositoryOptions
  | LogRemoteOpts RepositoryRemoteOptions
  | LogVirtualOpts RepositoryVirtualOptions

datatype log_entry = LogEntry log_level string "(string \<times> log_value) list"

text \<open>
  What an invocation has produced so far: the diagnostics and the state of its
  response (\<^verbatim>\<open>resp.Diagnostics\<close>, \<^verbatim>\<open>resp.State\<close>; \<open>None\<close> is the null state), the
  calls made on \<^verbatim>\<open>r.client\<close> and the entries written to \<^verbatim>\<open>tflog\<close>, oldest first.
\<close>

record invocation =
  Diagnostics :: "diagnostic list"
  State :: "RepositoryResourceModel option"
  calls :: "client_call list"
  logs :: "log_entry list"

definition append_diags :: "diagnostic list \<Rightarrow> invocation \<Rightarrow> invocation" where
  "append_diags ds resp = resp\<lparr>Diagnostics := Append (Diagnostics resp) ds\<rparr>"

definition add_error :: "string \<Rightarrow> message \<Rightarrow> invocation \<Rightarrow> invocation" where
  "add_error summary detail resp = resp\<lparr>Diagnostics := AddError (Diagnostics resp) summary detail\<rparr>"

definition called :: "client_call \<Rightarrow> invocation \<Rightarrow> invocation" where
  "called k resp = resp\<lparr>calls := calls resp @ [k]\<rparr>"

definition logged :: "log_entry \<Rightarrow> invocation \<Rightarrow> invocation" where
  "logged e resp = resp\<lparr>logs := logs resp @ [e]\<rparr>"

text \<open>\<^verbatim>\<open>resp.State.Set(ctx, &data)\<close>: the model always converts, so it reports nothing.\<close>

definition State_Set :: "RepositoryResourceModel \<Rightarrow> invocation \<Rightarrow> invocation" where
  "State_Set data resp = resp\<lparr>State := Some data\<rparr>"

text \<open>What \<^verbatim>\<open>req.Plan.Get(ctx, &data)\<close> or \<^verbatim>\<open>req.State.Get(ctx, &data)\<close> gives: the
  diagnostics it returns and the model it fills.\<close>

record request =
  got_diags :: "diagnostic list"
  got_data :: RepositoryResourceModel

datatype panic = NilPointerDereference

text \<open>An invocation returns, or panics where it stands.\<close>

datatype outcome = Returned invocation | Panicked panic invocation

fun final :: "outcome \<Rightarrow> invocation" where
  "final (Returned resp) = resp"
| "final (Panicked p resp) = resp"

fun returned :: "outcome \<Rightarrow> bool" where
  "returned (Returned resp) = True"
| "returned (Panicked p resp) = False"

text \<open>A Go pair \<^verbatim>\<open>(rp, err)\<close> from a client result.\<close>

fun rp_err :: "string + Repository \<Rightarrow> Repository option \<times> string option" where
  "rp_err (Inl err) = (None, Some err)"
| "rp_err (Inr rp) = (Some rp, None)"

subsection \<open>mapResponseToModel\<close>

definition mapResponseToModel ::
  "RepositoryResourceModel \<Rightarrow> Repository option \<Rightarrow> string
     \<Rightarrow> panic + (RepositoryResourceModel \<times> diagnostic list)" where
  "mapResponseToModel data0 rp0 workspaceId =
     (case rp0 of
        None \<Rightarrow> Inl NilPointerDereference
      | Some rp \<Rightarrow>
          let data = data0\<lparr>m_Id := StringValue (Join [workspaceId, rp_Id rp] ''/'')\<rparr>;
              data = data\<lparr>m_RepositoryId := StringValue (rp_Id rp)\<rparr>;
              data = data\<lparr>m_WorkspaceId := StringValue workspaceId\<rparr>;
              data = data\<lparr>m_Name := StringValue (rp_Name rp)\<rparr>;
              data = (if rp_RepositoryType rp \<noteq> []
                      then data\<lparr>m_PackageType := StringValue (rp_PackageType rp)\<rparr> else data);
              data = (if rp_RepositoryType rp \<noteq> []
                      then data\<lparr>m_RepositoryType := StringValue (rp_RepositoryType rp)\<rparr> else data);
              data = data\<lparr>m_RemoteRepositoryUrl := StringPointerValue (rp_RemoteRepositoryUrl rp)\<rparr>;
              data = data\<lparr>m_RemoteRepositoryUsername :=
                       StringPointerValue (rp_RemoteRepositoryUsername rp)\<rparr>;
              data = data\<lparr>m_RemoteRepositoryPassword :=
                       StringPointerValue (rp_RemoteRepositoryPassword rp)\<rparr>;
              data = data\<lparr>m_RemoteCacheEnabled := BoolValue (rp_IsRemoteCacheEnabled rp)\<rparr>;
              data = data\<lparr>m_FileCacheTimeTillRevalidation :=
                       Int64PointerValue (IntPtrToInt64Ptr (rp_FileCacheTimeTillRevalidation rp))\<rparr>;
              data = data\<lparr>m_MetadataCacheTimeTillRevalidation :=
                       Int64PointerValue (IntPtrToInt64Ptr (rp_MetadataCacheTimeTillRevalidation rp))\<rparr>;
              data = data\<lparr>m_UploadLocalRepositoryId :=
                       StringPointerValue (rp_UploadLocalRepositoryId rp)\<rparr>
          in (case rp_ChildRepositories rp of
                None \<Rightarrow> Inr (data\<lparr>m_ChildRepositoryIds := ListNull\<rparr>, [])
              | Some children \<Rightarrow>
                  let ids = map child_Id children;
                      (listValue, listDiags) = ListValueFrom ids
                  in Inr (data\<lparr>m_ChildRepositoryIds := listValue\<rparr>, Append [] listDiags)))"

subsection \<open>Create\<close>

text \<open>Lines 509 to 527 of \<^verbatim>\<open>Create\<close>, after the switch on the repository type.\<close>

definition Create_finish ::
  "RepositoryResourceModel \<Rightarrow> string \<Rightarrow> string \<Rightarrow> string
     \<Rightarrow> Repository option \<times> string option \<Rightarrow> invocation \<Rightarrow> outcome" where
  "Create_finish data workspaceId packageType repositoryType res resp =
     (case snd res of
        Some err \<Rightarrow>
          Returned (add_error ''Client Error''
            (Sprintf ''Unable to create repository, got error: %s'' [err]) resp)
      | None \<Rightarrow>
          (case mapResponseToModel data (fst res) workspaceId of
             Inl p \<Rightarrow> Panicked p resp
           | Inr (data', diags) \<Rightarrow>
               (case fst res of
                  None \<Rightarrow> Panicked NilPointerDereference (append_diags diags resp)
                | Some rp \<Rightarrow>
                    let resp = append_diags diags resp;
                        resp = logged (LogEntry Trace ''created a repoflow repository resource''
                                 [(''repository_id'', LogString (rp_Id rp)),
                                  (''package_type'', LogString packageType),
                                  (''repository_type'', LogString repositoryType),
                                  (''workspace_id'', LogString workspaceId),
                                  (''id'', LogString (Join [workspaceId, rp_Id rp] ''/''))]) resp
                    in Returned (State_Set data' resp))))"

definition Create :: "Client \<Rightarrow> request \<Rightarrow> invocation \<Rightarrow> outcome" where
  "Create c req resp0 =
     (let data = got_data req;
          resp = append_diags (got_diags req) resp0
      in if HasError (Diagnostics resp) then Returned resp
         else
           let workspace = ValueString (m_WorkspaceId data);
               packageType = ValueString (m_PackageType data);
               repositoryType = ValueString (m_RepositoryType data);
               resp = called (CallGetWorkspace workspace) resp;
               (workspaceId, resp) =
                 (case GetWorkspace c workspace of
                    Inl err \<Rightarrow>
                      ([], add_error ''Client Error''
                             (Sprintf ''Unable to get worksapce %s, got error: %s'' [workspace, err])
                             resp)
                  | Inr ws \<Rightarrow> (ws_Id ws, resp))
           in if repositoryType = ''local'' then
                (let opts = \<lparr>lo_Name = ValueString (m_Name data),
                             lo_PackageType = ValueString (m_PackageType data)\<rparr>;
                     resp = logged (LogEntry Debug ''create repository with option''
                              [(''opts'', LogLocalOpts opts)]) resp;
                     resp = called (CallCreateLocalRepository workspace opts) resp
                 in Create_finish data workspaceId packageType repositoryType
                      (rp_err (CreateLocalRepository c workspace opts)) resp)
              else if repositoryType = ''remote'' then
                (if String_IsNull (m_RemoteRepositoryUrl data) then
                   Returned (add_error ''Missing parameter''
                     (Literal (CHR 0x27 # ''remote_repository_url'' @ CHR 0x27 #
                        '' is mandatory for remote repository type.''))
                     resp)
                 else
                   let opts = \<lparr>ro_Name = ValueString (m_Name data),
                               ro_PackageType = ValueString (m_PackageType data),
                               ro_RemoteRepositoryUrl = ValueString (m_RemoteRepositoryUrl data),
                               ro_RemoteRepositoryUsername =
                                 ValueString (m_RemoteRepositoryUsername data),
                               ro_RemoteRepositoryPassword =
                                 ValueString (m_RemoteRepositoryPassword data),
                               ro_IsRemoteCacheEnabled = ValueBool (m_RemoteCacheEnabled data),
                               ro_FileCacheTimeTillRevalidation =
                                 Int64ToPtr (m_FileCacheTimeTillRevalidation data),
                               ro_MetadataCacheTimeTillRevalidation =
                                 Int64ToPtr (m_MetadataCacheTimeTillRevalidation data)\<rparr>;
                       resp = logged (LogEntry Debug ''create repository with option''
                                [(''opts'', LogRemoteOpts opts)]) resp;
                       resp = called (CallCreateRemoteRepository workspace opts) resp
                   in Create_finish data workspaceId packageType repositoryType
                        (rp_err (CreateRemoteRepository c workspace opts)) resp)
              else if repositoryType = ''virtual'' then
                (if List_IsNull (m_ChildRepositoryIds data) then
                   Returned (add_error ''Missing parameter''
                     (Literal ''`child_repository_ids` is required for virtual repository type.'')
                     resp)
                 else
                   let (diags, childIds) = ElementsAs (m_ChildRepositoryIds data);
                       resp = append_diags diags resp
                   in if HasError (Diagnostics resp) then Returned resp
                      else
                        let uploadLocalRepositoryId =
                              ValueString (m_UploadLocalRepositoryId data);
                            opts = \<lparr>vo_Name = ValueString (m_Name data),
                                    vo_PackageType = ValueString (m_PackageType data),
                                    vo_ChildRepositoryIds = childIds,
                                    vo_UploadLocalRepositoryId = uploadLocalRepositoryId\<rparr>;
                            resp = logged (LogEntry Debug ''create repository with option''
                                     [(''opts'', LogVirtualOpts opts)]) resp;
                            resp = called (CallCreateVirtualRepository workspace opts) resp
                        in Create_finish data workspaceId packageType repositoryType
                             (rp_err (CreateVirtualRepository c workspace opts)) resp)
              else Create_finish data workspaceId packageType repositoryType (None, None) resp)"

subsection \<open>Read, Update, Delete\<close>

definition Read :: "Client \<Rightarrow> request \<Rightarrow> invocation \<Rightarrow> outcome" where
  "Read c req resp0 =
     (let data = got_data req;
          resp = append_diags (got_diags req) resp0
      in if HasError (Diagnostics resp) then Returned resp
         else
           let workspaceId = ValueString (m_WorkspaceId data);
               repositoryId = ValueString (m_RepositoryId data);
               resp = called (CallGetRepository workspaceId repositoryId) resp
           in (case GetRepository c workspaceId repositoryId of
                 Inl err \<Rightarrow>
                   Returned (add_error ''Client Error''
                     (Sprintf ''Unable to get repository %s on workspaceId %s, got error: %s''
                        [repositoryId, workspaceId, err]) resp)
               | Inr rp \<Rightarrow>
                   (case mapResponseToModel data (Some rp) (ValueString (m_WorkspaceId data)) of
                      Inl p \<Rightarrow> Panicked p resp
                    | Inr (data', diags) \<Rightarrow>
                        let resp = append_diags diags resp
                        in if HasError (Diagnostics resp) then Returned resp
                           else Returned (logged (LogEntry Trace ''get a repoflow resource''
                                            [(''id'', LogString (rp_Id rp))]) resp))))"

definition Update :: "Client \<Rightarrow> request \<Rightarrow> invocation \<Rightarrow> outcome" where
  "Update c req resp0 =
     (let data = got_data req;
          resp = append_diags (got_diags req) resp0
      in if HasError (Diagnostics resp) then Returned resp
         else Returned (State_Set data resp))"

definition Delete :: "Client \<Rightarrow> request \<Rightarrow> invocation \<Rightarrow> outcome" where
  "Delete c req resp0 =
     (let data = got_data req;
          resp = append_diags (got_diags req) resp0
      in if HasError (Diagnostics resp) then Returned resp
         else
           let workspaceId = ValueString (m_WorkspaceId data);
               repositoryId = ValueString (m_RepositoryId data);
               resp = called (CallDeleteRepository workspaceId repositoryId) resp
           in (case DeleteRepository c workspaceId repositoryId of
                 Inl err \<Rightarrow>
                   Returned (add_error ''Client Error''
                     (Sprintf ''Unable to delete repository, got error: %s'' [err]) resp)
               | Inr rp \<Rightarrow>
                   Returned (logged (LogEntry Trace ''deleted a repoflow resource''
                               [(''workspace'', LogString workspaceId),
                                (''id'', LogString (del_RepositoryId rp))]) resp)))"

subsection \<open>ImportState\<close>

text \<open>The zero value of the model: every attribute null.\<close>

definition zero_model :: RepositoryResourceModel where
  "zero_model =
     \<lparr>m_Name = StringNull, m_Id = StringNull, m_WorkspaceId = StringNull,
      m_PackageType = StringNull, m_RepositoryType = StringNull, m_RepositoryId = StringNull,
      m_RemoteRepositoryUrl = StringNull, m_RemoteRepositoryUsername = StringNull,
      m_RemoteRepositoryPassword = StringNull, m_RemoteCacheEnabled = BoolNull,
      m_FileCacheTimeTillRevalidation = Int64Null,
      m_MetadataCacheTimeTillRevalidation = Int64Null,
      m_ChildRepositoryIds = ListNull, m_UploadLocalRepositoryId = StringNull\<rparr>"

text \<open>The argument of the \<^verbatim>\<open>%q\<close> verb is kept as it is, unquoted.\<close>

definition ImportState :: "Client \<Rightarrow> string \<Rightarrow> invocation \<Rightarrow> outcome" where
  "ImportState c ID resp0 =
     (let data = zero_model;
          idParts = Split ID (CHR ''/'');
          bad_format = Returned (add_error ''Fail to import data''
            (Sprintf ''Id use format: workspaceId/repositoryId. You define: %q'' [ID]) resp0)
      in (case idParts of
            [workspace, repository] \<Rightarrow>
              if workspace = [] \<or> repository = [] then bad_format
              else
                let resp = called (CallGetWorkspace workspace) resp0;
                    (workspaceId, resp) =
                      (case GetWorkspace c workspace of
                         Inl err \<Rightarrow>
                           ([], add_error ''Client Error''
                                  (Sprintf ''Unable to get worksapce %s, got error: %s'' [[], err])
                                  resp)
                       | Inr ws \<Rightarrow> (ws_Id ws, resp));
                    resp = called (CallGetRepository workspaceId repository) resp
                in (case GetRepository c workspaceId repository of
                      Inl err \<Rightarrow>
                        Returned (add_error ''Client Error''
                          (Sprintf
                             ''Unable to import repository %s on workspaceId %s, got error: %s''
                             [repository, workspaceId, err]) resp)
                    | Inr rp \<Rightarrow>
                        (case mapResponseToModel data (Some rp) workspaceId of
                           Inl p \<Rightarrow> Panicked p resp
                         | Inr (data', diags) \<Rightarrow>
                             let resp = append_diags diags resp
                             in if HasError (Diagnostics resp) then Returned resp
                                else
                                  let resp = logged
                                        (LogEntry Trace ''import a repoflow repository resource''
                                           [(''id'', LogString (rp_Id rp))]) resp
                                  in Returned (State_Set data' resp)))
          | _ \<Rightarrow> bad_format))"

subsection \<open>The schema's validator of the repository type\<close>

text \<open>\<^verbatim>\<open>stringvalidator.OneOf\<close> checks a known value only; a null or unknown value
  passes.\<close>

fun OneOf :: "string list \<Rightarrow> tf_string \<Rightarrow> bool" where
  "OneOf values (StringValue s) = (s \<in> set values)"
| "OneOf values StringNull = True"
| "OneOf values StringUnknown = True"

definition repository_type_Validators :: "tf_string \<Rightarrow> bool" where
  "repository_type_Validators v = OneOf [''local'', ''remote'', ''virtual''] v"

subsection \<open>Fixtures\<close>

definition new_invocation :: invocation where
  "new_invocation = \<lparr>Diagnostics = [], State = None, calls = [], logs = []\<rparr>"

text \<open>A plan as the engine hands it to \<^verbatim>\<open>Create\<close> for the local repository of
  \<^verbatim>\<open>examples/resources/repoflow_repository/resource.tf\<close>: what the configuration
  leaves out is null, or unknown where the schema says computed.\<close>

definition example_plan :: RepositoryResourceModel where
  "example_plan =
     \<lparr>m_Name = StringValue ''local-example'', m_Id = StringUnknown,
      m_WorkspaceId = StringValue ''example'', m_PackageType = StringValue ''npm'',
      m_RepositoryType = StringValue ''local'', m_RepositoryId = StringUnknown,
      m_RemoteRepositoryUrl = StringNull, m_RemoteRepositoryUsername = StringNull,
      m_RemoteRepositoryPassword = StringNull, m_RemoteCacheEnabled = BoolValue False,
      m_FileCacheTimeTillRevalidation = Int64Unknown,
      m_MetadataCacheTimeTillRevalidation = Int64Unknown,
      m_ChildRepositoryIds = ListUnknown, m_UploadLocalRepositoryId = StringUnknown\<rparr>"

definition virtual_plan :: "tf_list \<Rightarrow> tf_string \<Rightarrow> RepositoryResourceModel" where
  "virtual_plan children upload =
     example_plan\<lparr>m_Name := StringValue ''virtual-example'',
                  m_RepositoryType := StringValue ''virtual'',
                  m_ChildRepositoryIds := children, m_UploadLocalRepositoryId := upload\<rparr>"

definition remote_plan :: "tf_string \<Rightarrow> RepositoryResourceModel" where
  "remote_plan password =
     example_plan\<lparr>m_Name := StringValue ''remote-example'',
                  m_RepositoryType := StringValue ''remote'',
                  m_RemoteRepositoryUrl := StringValue ''https://registry.npmjs.org'',
                  m_RemoteRepositoryUsername := StringValue ''bot'',
                  m_RemoteRepositoryPassword := password\<rparr>"

definition decoded :: "RepositoryResourceModel \<Rightarrow> request" where
  "decoded data = \<lparr>got_diags = [], got_data = data\<rparr>"

definition example_repository :: Repository where
  "example_repository =
     \<lparr>rp_Id = ''r1'', rp_Name = ''local-example'', rp_RepositoryType = ''local'',
      rp_PackageType = ''npm'', rp_RemoteRepositoryUrl = None,
      rp_RemoteRepositoryUsername = None, rp_RemoteRepositoryPassword = None,
      rp_IsRemoteCacheEnabled = False, rp_FileCacheTimeTillRevalidation = None,
      rp_MetadataCacheTimeTillRevalidation = None, rp_UploadLocalRepositoryId = None,
      rp_ChildRepositories = None\<rparr>"

text \<open>A remote side on which every call succeeds: the workspace has the id
  \<^verbatim>\<open>ws-1\<close> and every repository is \<open>example_repository\<close>.\<close>

definition example_client :: Client where
  "example_client =
     \<lparr>GetWorkspace = (\<lambda>w. Inr \<lparr>ws_Id = ''ws-1'', ws_Name = ''example''\<rparr>),
      CreateLocalRepository = (\<lambda>w opts. Inr example_repository),
      CreateRemoteRepository = (\<lambda>w opts. Inr example_repository),
      CreateVirtualRepository = (\<lambda>w opts. Inr example_repository),
      GetRepository = (\<lambda>w r. Inr example_repository),
      DeleteRepository = (\<lambda>w r. Inr \<lparr>del_RepositoryId = r\<rparr>)\<rparr>"

text \<open>The same remote side, except that the workspace lookup fails.\<close>

definition lookup_failing_client :: Client where
  "lookup_failing_client = example_client\<lparr>GetWorkspace := (\<lambda>w. Inl ''workspace not found'')\<rparr>"

section \<open>Properties\<close>

subsection \<open>What each step leaves untouched\<close>

lemma calls_simps [simp]:
  "calls (append_diags ds r) = calls r"
  "calls (add_error s d r) = calls r"
  "calls (called k r) = calls r @ [k]"
  "calls (logged e r) = calls r"
  "calls (State_Set m r) = calls r"
  by (simp_all add: append_diags_def add_error_def called_def logged_def State_Set_def)

lemma State_simps [simp]:
  "State (append_diags ds r) = State r"
  "State (add_error s d r) = State r"
  "State (called k r) = State r"
  "State (logged e r) = State r"
  "State (State_Set m r) = Some m"
  by (simp_all add: append_diags_def add_error_def called_def logged_def State_Set_def)

lemma logs_simps [simp]:
  "logs (append_diags ds r) = logs r"
  "logs (add_error s d r) = logs r"
  "logs (called k r) = logs r"
  "logs (logged e r) = logs r @ [e]"
  "logs (State_Set m r) = logs r"
  by (simp_all add: append_diags_def add_error_def called_def logged_def State_Set_def)

lemma Diagnostics_simps [simp]:
  "Diagnostics (append_diags ds r) = Append (Diagnostics r) ds"
  "Diagnostics (add_error s d r) = AddError (Diagnostics r) s d"
  "Diagnostics (called k r) = Diagnostics r"
  "Diagnostics (logged e r) = Diagnostics r"
  "Diagnostics (State_Set m r) = Diagnostics r"
  by (simp_all add: append_diags_def add_error_def called_def logged_def State_Set_def)

lemma HasError_iff: "HasError ds \<longleftrightarrow> (\<exists>d \<in> set ds. Severity d = SeverityError)"
  by (induction ds) auto

lemma AddError_member: "Diagnostic SeverityError s d \<in> set (AddError ds s d)"
  by (simp add: AddError_def)

lemma HasError_AddError [simp]: "HasError (AddError ds s d)"
  unfolding HasError_iff using AddError_member by force

lemmas fixture_defs = decoded_def virtual_plan_def remote_plan_def example_plan_def
  new_invocation_def example_client_def example_repository_def

subsection \<open>The mapping of a non-nil repository\<close>

lemma mapResponseToModel_total:
  "\<exists>d. mapResponseToModel data (Some rp) w = Inr (d, [])"
  by (auto simp: mapResponseToModel_def Let_def ListValueFrom_def split: option.splits)

lemma mapResponseToModel_not_Inl [simp]: "mapResponseToModel data (Some rp) w \<noteq> Inl p"
  using mapResponseToModel_total [of data rp w] by auto

lemma mapResponseToModel_ids:
  assumes "mapResponseToModel data (Some rp) w = Inr (d, ds)"
  shows "m_Id d = StringValue (w @ ''/'' @ rp_Id rp)"
    and "m_RepositoryId d = StringValue (rp_Id rp)"
    and "m_WorkspaceId d = StringValue w"
  using assms
  by (auto simp: mapResponseToModel_def Let_def ListValueFrom_def split: option.splits)

text \<open>Both type attributes are guarded by the repository type of the remote
  record.\<close>

lemma mapResponseToModel_types:
  assumes "mapResponseToModel data (Some rp) w = Inr (d, ds)"
  shows "m_PackageType d
           = (if rp_RepositoryType rp \<noteq> [] then StringValue (rp_PackageType rp)
              else m_PackageType data)"
    and "m_RepositoryType d
           = (if rp_RepositoryType rp \<noteq> [] then StringValue (rp_RepositoryType rp)
              else m_RepositoryType data)"
  using assms
  by (auto simp: mapResponseToModel_def Let_def ListValueFrom_def split: option.splits)

subsection \<open>The end of Create\<close>

lemma rp_err_Some [simp]: "rp_err x = (Some rp, e) \<longleftrightarrow> x = Inr rp \<and> e = None"
  by (cases x) auto

lemma rp_err_snd [simp]: "snd (rp_err x) = None \<longleftrightarrow> (\<exists>rp. x = Inr rp)"
  by (cases x) auto

lemma Create_finish_error:
  "Create_finish data w p t (None, Some e) resp =
     Returned (add_error ''Client Error''
       (Sprintf ''Unable to create repository, got error: %s'' [e]) resp)"
  by (simp add: Create_finish_def)

lemma Create_finish_nil:
  "Create_finish data w p t (None, None) resp = Panicked NilPointerDereference resp"
  by (simp add: Create_finish_def mapResponseToModel_def)

lemma Create_finish_ok:
  "\<exists>d. mapResponseToModel data (Some rp) w = Inr (d, []) \<and>
     Create_finish data w p t (Some rp, None) resp =
       Returned (State_Set d
         (logged (LogEntry Trace ''created a repoflow repository resource''
                    [(''repository_id'', LogString (rp_Id rp)),
                     (''package_type'', LogString p),
                     (''repository_type'', LogString t),
                     (''workspace_id'', LogString w),
                     (''id'', LogString (Join [w, rp_Id rp] ''/''))])
            resp))"
proof -
  obtain d where d: "mapResponseToModel data (Some rp) w = Inr (d, [])"
    using mapResponseToModel_total by blast
  have "append_diags [] resp = resp"
    by (simp add: append_diags_def)
  with d show ?thesis
    by (simp add: Create_finish_def)
qed

lemma Create_finish_calls [simp]: "calls (final (Create_finish data w p t res resp)) = calls resp"
  by (auto simp: Create_finish_def Let_def split: option.splits sum.splits prod.splits)

lemma Create_finish_State:
  assumes "State (final (Create_finish data w p t (rp_err x) resp)) = Some d"
      and "State resp = None"
  shows "\<exists>rp. x = Inr rp \<and> mapResponseToModel data (Some rp) w = Inr (d, [])"
proof (cases x)
  case (Inl e)
  with assms show ?thesis by (simp add: Create_finish_error)
next
  case (Inr rp)
  obtain d' where d': "mapResponseToModel data (Some rp) w = Inr (d', [])"
    and fin: "State (final (Create_finish data w p t (Some rp, None) resp)) = Some d'"
    using Create_finish_ok [of data rp w p t resp] by auto
  with assms Inr show ?thesis by simp
qed

section \<open>The claims\<close>

subsection \<open>C1: the upload target of a virtual repository\<close>

text \<open>
  Claim C1, as the code has it. \<^verbatim>\<open>Create\<close> never compares
  \<^verbatim>\<open>upload_local_repository_id\<close> with \<^verbatim>\<open>child_repository_ids\<close>. For a virtual
  repository whose list of children is known and converts, with a plan that decoded
  and a workspace that resolved, the calls are the workspace lookup and then
  \<^verbatim>\<open>CreateVirtualRepository\<close> with the children and the upload target handed through
  as they are, whether the target is among the children or not; and when the client
  accepts, \<^verbatim>\<open>Create\<close> returns, adds no diagnostic and writes the state.
\<close>

theorem Create_virtual_passes_upload_target_through:
  assumes "ValueString (m_RepositoryType (got_data req)) = ''virtual''"
      and "m_ChildRepositoryIds (got_data req) = ListValue xs"
      and "known_strings xs = Some ids"
      and "\<not> HasError (Append (Diagnostics resp) (got_diags req))"
      and "GetWorkspace c (ValueString (m_WorkspaceId (got_data req))) = Inr ws"
  shows "calls (final (Create c req resp))
           = calls resp @
             [CallGetWorkspace (ValueString (m_WorkspaceId (got_data req))),
              CallCreateVirtualRepository (ValueString (m_WorkspaceId (got_data req)))
                \<lparr>vo_Name = ValueString (m_Name (got_data req)),
                 vo_PackageType = ValueString (m_PackageType (got_data req)),
                 vo_ChildRepositoryIds = ids,
                 vo_UploadLocalRepositoryId =
                   ValueString (m_UploadLocalRepositoryId (got_data req))\<rparr>] \<and>
         (\<forall>rp. CreateVirtualRepository c (ValueString (m_WorkspaceId (got_data req)))
                 \<lparr>vo_Name = ValueString (m_Name (got_data req)),
                  vo_PackageType = ValueString (m_PackageType (got_data req)),
                  vo_ChildRepositoryIds = ids,
                  vo_UploadLocalRepositoryId =
                    ValueString (m_UploadLocalRepositoryId (got_data req))\<rparr> = Inr rp \<longrightarrow>
               returned (Create c req resp) \<and>
               Diagnostics (final (Create c req resp))
                 = Append (Diagnostics resp) (got_diags req) \<and>
               State (final (Create c req resp)) \<noteq> None)"
proof -
  let ?w = "ValueString (m_WorkspaceId (got_data req))"
  let ?opts = "\<lparr>vo_Name = ValueString (m_Name (got_data req)),
                 vo_PackageType = ValueString (m_PackageType (got_data req)),
                 vo_ChildRepositoryIds = ids,
                 vo_UploadLocalRepositoryId =
                   ValueString (m_UploadLocalRepositoryId (got_data req))\<rparr>"
  let ?resp = "called (CallCreateVirtualRepository ?w ?opts)
                 (logged (LogEntry Debug ''create repository with option''
                            [(''opts'', LogVirtualOpts ?opts)])
                    (append_diags []
                       (called (CallGetWorkspace ?w) (append_diags (got_diags req) resp))))"
  have unfolded: "Create c req resp =
      Create_finish (got_data req) (ws_Id ws) (ValueString (m_PackageType (got_data req)))
        ''virtual'' (rp_err (CreateVirtualRepository c ?w ?opts)) ?resp"
    using assms by (simp add: Create_def Let_def)
  have trace: "calls (final (Create c req resp))
                 = calls resp @ [CallGetWorkspace ?w, CallCreateVirtualRepository ?w ?opts]"
    by (simp add: unfolded)
  have accepted: "returned (Create c req resp) \<and>
                  Diagnostics (final (Create c req resp))
                    = Append (Diagnostics resp) (got_diags req) \<and>
                  State (final (Create c req resp)) \<noteq> None"
    if "CreateVirtualRepository c ?w ?opts = Inr rp" for rp
    using Create_finish_ok [of "got_data req" rp "ws_Id ws"
            "ValueString (m_PackageType (got_data req))" "''virtual''" ?resp] that
    by (auto simp: unfolded)
  from trace accepted show ?thesis by blast
qed

text \<open>The theorem at an upload target \<^verbatim>\<open>x\<close> that is among the children
  \<^verbatim>\<open>x\<close>, \<^verbatim>\<open>y\<close>.\<close>

theorem Create_virtual_passes_upload_target_through_witness:
  "ValueString (m_RepositoryType (got_data
     (decoded (virtual_plan (ListValue [StringValue ''x'', StringValue ''y'']) (StringValue ''x'')))))
     = ''virtual'' \<and>
   known_strings [StringValue ''x'', StringValue ''y''] = Some [''x'', ''y''] \<and>
   \<not> HasError (Append (Diagnostics new_invocation) []) \<and>
   GetWorkspace example_client ''example'' = Inr \<lparr>ws_Id = ''ws-1'', ws_Name = ''example''\<rparr> \<and>
   calls (final (Create example_client
     (decoded (virtual_plan (ListValue [StringValue ''x'', StringValue ''y'']) (StringValue ''x'')))
     new_invocation))
     = [CallGetWorkspace ''example'',
        CallCreateVirtualRepository ''example''
          \<lparr>vo_Name = ''virtual-example'', vo_PackageType = ''npm'',
           vo_ChildRepositoryIds = [''x'', ''y''], vo_UploadLocalRepositoryId = ''x''\<rparr>] \<and>
   Diagnostics (final (Create example_client
     (decoded (virtual_plan (ListValue [StringValue ''x'', StringValue ''y'']) (StringValue ''x'')))
     new_invocation)) = []"
  using Create_virtual_passes_upload_target_through
          [of "decoded (virtual_plan (ListValue [StringValue ''x'', StringValue ''y''])
                 (StringValue ''x''))"
              "[StringValue ''x'', StringValue ''y'']" "[''x'', ''y'']" new_invocation
              example_client "\<lparr>ws_Id = ''ws-1'', ws_Name = ''example''\<rparr>"]
  by (simp add: fixture_defs)

text \<open>The upload target \<^verbatim>\<open>x\<close> with the children \<^verbatim>\<open>y\<close>, \<^verbatim>\<open>z\<close>: no diagnostic,
  and the create call is made.\<close>

theorem Create_virtual_upload_target_counterexample:
  "returned (Create example_client
     (decoded (virtual_plan (ListValue [StringValue ''y'', StringValue ''z'']) (StringValue ''x'')))
     new_invocation) \<and>
   Diagnostics (final (Create example_client
     (decoded (virtual_plan (ListValue [StringValue ''y'', StringValue ''z'']) (StringValue ''x'')))
     new_invocation)) = [] \<and>
   calls (final (Create example_client
     (decoded (virtual_plan (ListValue [StringValue ''y'', StringValue ''z'']) (StringValue ''x'')))
     new_invocation))
     = [CallGetWorkspace ''example'',
        CallCreateVirtualRepository ''example''
          \<lparr>vo_Name = ''virtual-example'', vo_PackageType = ''npm'',
           vo_ChildRepositoryIds = [''y'', ''z''], vo_UploadLocalRepositoryId = ''x''\<rparr>]"
  by (simp add: Create_def Let_def fixture_defs Create_finish_def mapResponseToModel_def)

subsection \<open>C2: a virtual repository without children\<close>

text \<open>
  Claim C2, as the code has it. When the repository type is \<^verbatim>\<open>virtual\<close>, the list
  of children is null and the plan decoded, \<^verbatim>\<open>Create\<close> returns with the error
  diagnostic \<^verbatim>\<open>Missing parameter\<close>, after exactly one call on the client, the
  workspace lookup; it makes no create call, writes no state and logs nothing. (The
  check is for null only: a known empty list passes it.)
\<close>

theorem Create_virtual_null_children:
  assumes "ValueString (m_RepositoryType (got_data req)) = ''virtual''"
      and "List_IsNull (m_ChildRepositoryIds (got_data req))"
      and "\<not> HasError (Append (Diagnostics resp) (got_diags req))"
  shows "\<exists>w. Create c req resp = Returned w \<and>
           calls w = calls resp @ [CallGetWorkspace (ValueString (m_WorkspaceId (got_data req)))] \<and>
           Diagnostic SeverityError ''Missing parameter''
             (Literal ''`child_repository_ids` is required for virtual repository type.'')
             \<in> set (Diagnostics w) \<and>
           State w = State resp \<and> logs w = logs resp"
  using assms
  by (auto simp: Create_def Let_def AddError_member split: sum.splits prod.splits)

theorem Create_virtual_null_children_witness:
  "ValueString (m_RepositoryType (got_data (decoded (virtual_plan ListNull StringUnknown))))
     = ''virtual'' \<and>
   List_IsNull (m_ChildRepositoryIds (got_data (decoded (virtual_plan ListNull StringUnknown)))) \<and>
   \<not> HasError (Append (Diagnostics new_invocation)
                  (got_diags (decoded (virtual_plan ListNull StringUnknown)))) \<and>
   (\<exists>w. Create example_client (decoded (virtual_plan ListNull StringUnknown)) new_invocation
           = Returned w \<and>
        calls w = [CallGetWorkspace ''example''] \<and>
        Diagnostic SeverityError ''Missing parameter''
          (Literal ''`child_repository_ids` is required for virtual repository type.'')
          \<in> set (Diagnostics w) \<and>
        State w = None \<and> logs w = [])"
  using Create_virtual_null_children
          [of "decoded (virtual_plan ListNull StringUnknown)" new_invocation example_client]
  by (simp add: decoded_def virtual_plan_def example_plan_def new_invocation_def)

text \<open>With null children the workspace lookup has been made; with an empty list
  of children nothing is rejected and the create call is made.\<close>

theorem Create_virtual_missing_children_counterexample:
  "calls (final (Create example_client (decoded (virtual_plan ListNull StringUnknown))
                   new_invocation))
     = [CallGetWorkspace ''example''] \<and>
   Diagnostics (final (Create example_client (decoded (virtual_plan (ListValue []) StringUnknown))
                         new_invocation)) = [] \<and>
   calls (final (Create example_client (decoded (virtual_plan (ListValue []) StringUnknown))
                   new_invocation))
     = [CallGetWorkspace ''example'',
        CallCreateVirtualRepository ''example''
          \<lparr>vo_Name = ''virtual-example'', vo_PackageType = ''npm'',
           vo_ChildRepositoryIds = [], vo_UploadLocalRepositoryId = []\<rparr>]"
  by (simp add: Create_def Let_def fixture_defs Create_finish_def mapResponseToModel_def)

subsection \<open>C3: a failed workspace lookup\<close>

text \<open>
  Claim C3 at a workspace lookup that fails. \<^verbatim>\<open>Create\<close> records the error and goes
  on: it calls \<^verbatim>\<open>CreateLocalRepository\<close> and writes a state whose id is \<^verbatim>\<open>/r1\<close>,
  the empty workspace id joined with the repository id. \<^verbatim>\<open>ImportState\<close> records
  the error and goes on to call \<^verbatim>\<open>GetRepository\<close> with the empty workspace id.
\<close>

theorem failed_workspace_lookup_does_not_stop_the_invocation:
  "HasError (Diagnostics (final (Create lookup_failing_client (decoded example_plan)
                                   new_invocation))) \<and>
   calls (final (Create lookup_failing_client (decoded example_plan) new_invocation))
     = [CallGetWorkspace ''example'',
        CallCreateLocalRepository ''example''
          \<lparr>lo_Name = ''local-example'', lo_PackageType = ''npm''\<rparr>] \<and>
   map_option m_Id (State (final (Create lookup_failing_client (decoded example_plan)
                                    new_invocation)))
     = Some (StringValue ''/r1'') \<and>
   calls (final (ImportState lookup_failing_client ''example/r1'' new_invocation))
     = [CallGetWorkspace ''example'', CallGetRepository [] ''r1'']"
  by (simp add: Create_def ImportState_def Let_def fixture_defs lookup_failing_client_def
      Create_finish_def mapResponseToModel_def zero_model_def)

subsection \<open>C4: an empty package type from the remote side\<close>

text \<open>
  Claim C4 at a remote record whose package type is empty and whose repository type
  is \<^verbatim>\<open>local\<close>: the guard of the package type reads the repository type, so the
  mapping writes the empty string into \<^verbatim>\<open>package_type\<close>.
\<close>

theorem mapResponseToModel_writes_empty_PackageType:
  "map_sum id (m_PackageType \<circ> fst)
     (mapResponseToModel zero_model (Some (example_repository\<lparr>rp_PackageType := []\<rparr>)) ''ws-1'')
   = Inr (StringValue [])"
  by (simp add: mapResponseToModel_def Let_def fixture_defs zero_model_def)


subsection \<open>C5: a repository type outside the three\<close>

text \<open>
  Claim C5, as the code has it. The switch of \<^verbatim>\<open>Create\<close> has no default case and
  no error for an unrecognised repository type: the schema's \<^verbatim>\<open>OneOf\<close> validator
  rejects every known value other than \<^verbatim>\<open>local\<close>, \<^verbatim>\<open>remote\<close> and \<^verbatim>\<open>virtual\<close>.
  Were \<^verbatim>\<open>Create\<close> given such a value with a plan that decoded, it would look the
  workspace up, make no create call, write no state, and panic on the nil
  repository it hands to \<^verbatim>\<open>mapResponseToModel\<close>.
\<close>

theorem Create_unrecognised_repository_type:
  assumes "ValueString (m_RepositoryType (got_data req)) \<notin> set [''local'', ''remote'', ''virtual'']"
      and "\<not> HasError (Append (Diagnostics resp) (got_diags req))"
  shows "(\<exists>w. Create c req resp = Panicked NilPointerDereference w \<and>
            calls w = calls resp @ [CallGetWorkspace (ValueString (m_WorkspaceId (got_data req)))] \<and>
            State w = State resp \<and> logs w = logs resp) \<and>
         (\<forall>s. m_RepositoryType (got_data req) = StringValue s \<longrightarrow>
            \<not> repository_type_Validators (StringValue s))"
  using assms
  by (auto simp: Create_def Let_def Create_finish_nil repository_type_Validators_def
      split: sum.splits prod.splits)

theorem Create_unrecognised_repository_type_witness:
  "ValueString (m_RepositoryType (got_data
      (decoded (example_plan\<lparr>m_RepositoryType := StringValue ''generic''\<rparr>))))
     \<notin> set [''local'', ''remote'', ''virtual''] \<and>
   \<not> HasError (Append (Diagnostics new_invocation) []) \<and>
   (\<exists>w. Create example_client
           (decoded (example_plan\<lparr>m_RepositoryType := StringValue ''generic''\<rparr>)) new_invocation
         = Panicked NilPointerDereference w \<and>
        calls w = [CallGetWorkspace ''example''] \<and> State w = None \<and> logs w = []) \<and>
   \<not> repository_type_Validators (StringValue ''generic'')"
  using Create_unrecognised_repository_type
          [of "decoded (example_plan\<lparr>m_RepositoryType := StringValue ''generic''\<rparr>)"
              new_invocation example_client]
  by (simp add: fixture_defs)

text \<open>The repository type \<^verbatim>\<open>generic\<close>: a panic, and no error diagnostic.\<close>

theorem Create_unknown_variant_counterexample:
  "Create example_client (decoded (example_plan\<lparr>m_RepositoryType := StringValue ''generic''\<rparr>))
     new_invocation
   = Panicked NilPointerDereference
       \<lparr>Diagnostics = [], State = None, calls = [CallGetWorkspace ''example''], logs = []\<rparr>"
  by (simp add: Create_def Let_def fixture_defs Create_finish_nil called_def append_diags_def)

subsection \<open>C6: the workspace of the create call, and the composite id\<close>

text \<open>
  Claim C6, as the code has it. Every create call that \<^verbatim>\<open>Create\<close> makes carries the
  workspace as the plan declares it (a name or an id), not the id that the lookup
  returned. When the lookup succeeded and \<^verbatim>\<open>Create\<close>, started on a null state, has
  written a state, the calls were the lookup and one create call, the client
  answered that call with a repository, and the id of the state is the looked-up
  workspace id, a slash, and the id of that repository.
\<close>

theorem Create_workspace_argument_and_composite_id:
  assumes "State resp = None"
  shows "(\<forall>k \<in> set (drop (length (calls resp)) (calls (final (Create c req resp)))).
            is_create_call k \<longrightarrow> call_workspace k = ValueString (m_WorkspaceId (got_data req))) \<and>
         (\<forall>ws d. GetWorkspace c (ValueString (m_WorkspaceId (got_data req))) = Inr ws \<and>
                 State (final (Create c req resp)) = Some d \<longrightarrow>
            (\<exists>k rp. calls (final (Create c req resp))
                       = calls resp @
                         [CallGetWorkspace (ValueString (m_WorkspaceId (got_data req))), k] \<and>
                    is_create_call k \<and> create_result c k = Some (Inr rp) \<and>
                    m_Id d = StringValue (ws_Id ws @ ''/'' @ rp_Id rp)))"
  using assms
  by (auto simp: Create_def Let_def Create_finish_nil mapResponseToModel_ids
      split: sum.splits prod.splits if_splits dest!: Create_finish_State)

theorem Create_workspace_argument_and_composite_id_witness:
  "State new_invocation = None \<and>
   map call_workspace
     (filter is_create_call
        (calls (final (Create example_client (decoded example_plan) new_invocation))))
     = [''example''] \<and>
   GetWorkspace example_client ''example'' = Inr \<lparr>ws_Id = ''ws-1'', ws_Name = ''example''\<rparr> \<and>
   (\<exists>d. State (final (Create example_client (decoded example_plan) new_invocation)) = Some d \<and>
        m_Id d = StringValue ''ws-1/r1'')"
proof -
  have none: "State new_invocation = None"
    by (simp add: new_invocation_def)
  have ws: "GetWorkspace example_client ''example''
              = Inr \<lparr>ws_Id = ''ws-1'', ws_Name = ''example''\<rparr>"
    by (simp add: example_client_def)
  obtain d where d: "State (final (Create example_client (decoded example_plan) new_invocation))
                       = Some d"
    by (simp add: Create_def Let_def fixture_defs Create_finish_def mapResponseToModel_def)
  note inst = Create_workspace_argument_and_composite_id
                [OF none, of example_client "decoded example_plan"]
  have trace: "calls (final (Create example_client (decoded example_plan) new_invocation))
                 = [CallGetWorkspace ''example'',
                    CallCreateLocalRepository ''example''
                      \<lparr>lo_Name = ''local-example'', lo_PackageType = ''npm''\<rparr>]"
    by (simp add: Create_def Let_def fixture_defs)
  from inst have "\<forall>k \<in> set (calls (final (Create example_client (decoded example_plan)
                                              new_invocation))).
                    is_create_call k \<longrightarrow> call_workspace k = ''example''"
    by (simp add: decoded_def example_plan_def new_invocation_def)
  with trace have args:
    "map call_workspace
       (filter is_create_call
          (calls (final (Create example_client (decoded example_plan) new_invocation))))
       = [''example'']"
    by simp
  from inst ws d obtain k rp
    where k: "create_result example_client k = Some (Inr rp)"
      and id: "m_Id d = StringValue (''ws-1'' @ ''/'' @ rp_Id rp)"
    by (auto simp: decoded_def example_plan_def)
  from k have "rp = example_repository"
    by (cases k) (auto simp: example_client_def)
  with id have "m_Id d = StringValue ''ws-1/r1''"
    by (simp add: example_repository_def)
  with none args ws d show ?thesis by blast
qed

text \<open>The workspace \<^verbatim>\<open>example\<close> resolves to the id \<^verbatim>\<open>ws-1\<close>, and the create call
  carries \<^verbatim>\<open>example\<close>.\<close>

theorem Create_workspace_argument_counterexample:
  "GetWorkspace example_client ''example'' = Inr \<lparr>ws_Id = ''ws-1'', ws_Name = ''example''\<rparr> \<and>
   calls (final (Create example_client (decoded example_plan) new_invocation))
     = [CallGetWorkspace ''example'',
        CallCreateLocalRepository ''example''
          \<lparr>lo_Name = ''local-example'', lo_PackageType = ''npm''\<rparr>]"
  by (simp add: Create_def Let_def fixture_defs)

subsection \<open>C7: the password of a remote repository in the log\<close>

text \<open>
  Claim C7 at a remote repository with the password \<^verbatim>\<open>hunter2\<close>: the debug entry
  that \<^verbatim>\<open>Create\<close> writes before the create call holds the options with the
  password in them, so another password gives another log.
\<close>

theorem Create_logs_remote_password:
  "logs (final (Create example_client (decoded (remote_plan (StringValue ''hunter2'')))
                  new_invocation))
     = [LogEntry Debug ''create repository with option''
          [(''opts'', LogRemoteOpts
             \<lparr>ro_Name = ''remote-example'', ro_PackageType = ''npm'',
              ro_RemoteRepositoryUrl = ''https://registry.npmjs.org'',
              ro_RemoteRepositoryUsername = ''bot'',
              ro_RemoteRepositoryPassword = ''hunter2'',
              ro_IsRemoteCacheEnabled = False,
              ro_FileCacheTimeTillRevalidation = None,
              ro_MetadataCacheTimeTillRevalidation = None\<rparr>)],
        LogEntry Trace ''created a repoflow repository resource''
          [(''repository_id'', LogString ''r1''), (''package_type'', LogString ''npm''),
           (''repository_type'', LogString ''remote''), (''workspace_id'', LogString ''ws-1''),
           (''id'', LogString ''ws-1/r1'')]] \<and>
   logs (final (Create example_client (decoded (remote_plan (StringValue ''hunter2'')))
                  new_invocation))
     \<noteq> logs (final (Create example_client (decoded (remote_plan (StringValue ''swordfish'')))
                     new_invocation))"
  by (simp add: Create_def Let_def fixture_defs Create_finish_def mapResponseToModel_def
      Int64ToPtr_def)

subsection \<open>C8: Read and the state\<close>

text \<open>
  Claim C8. \<^verbatim>\<open>Read\<close> always returns, the state of its response is the state it
  started with, whatever the client answers, and the only call it makes is
  \<^verbatim>\<open>GetRepository\<close> with the workspace and repository ids of the prior state.
\<close>

theorem Read_never_writes_State:
  "returned (Read c req resp) \<and> State (final (Read c req resp)) = State resp \<and>
   (\<forall>k \<in> set (drop (length (calls resp)) (calls (final (Read c req resp)))).
      k = CallGetRepository (ValueString (m_WorkspaceId (got_data req)))
            (ValueString (m_RepositoryId (got_data req))))"
  by (auto simp: Read_def Let_def split: sum.splits prod.splits)

text \<open>A prior state named \<^verbatim>\<open>renamed\<close> and a remote record named
  \<^verbatim>\<open>local-example\<close>: the state stays.\<close>

theorem Read_never_writes_State_witness:
  "State (final (Read example_client (decoded (example_plan\<lparr>m_Name := StringValue ''renamed''\<rparr>))
                   (new_invocation\<lparr>State := Some (example_plan\<lparr>m_Name := StringValue ''renamed''\<rparr>)\<rparr>)))
     = Some (example_plan\<lparr>m_Name := StringValue ''renamed''\<rparr>) \<and>
   calls (final (Read example_client
            (decoded (example_plan\<lparr>m_Name := StringValue ''renamed''\<rparr>))
            (new_invocation\<lparr>State := Some (example_plan\<lparr>m_Name := StringValue ''renamed''\<rparr>)\<rparr>)))
     = [CallGetRepository ''example'' []] \<and>
   GetRepository example_client ''example'' [] = Inr example_repository \<and>
   rp_Name example_repository = ''local-example''"
proof -
  let ?prior = "example_plan\<lparr>m_Name := StringValue ''renamed''\<rparr>"
  have "State (final (Read example_client (decoded ?prior) (new_invocation\<lparr>State := Some ?prior\<rparr>)))
          = State (new_invocation\<lparr>State := Some ?prior\<rparr>)"
    using Read_never_writes_State
            [of example_client "decoded ?prior" "new_invocation\<lparr>State := Some ?prior\<rparr>"]
    by blast
  moreover
  have "calls (final (Read example_client (decoded ?prior) (new_invocation\<lparr>State := Some ?prior\<rparr>)))
          = [CallGetRepository ''example'' []]"
    by (simp add: Read_def Let_def fixture_defs mapResponseToModel_def)
  ultimately show ?thesis
    by (simp add: example_client_def example_repository_def)
qed

subsection \<open>C9: Update\<close>

text \<open>
  Claim C9. \<^verbatim>\<open>Update\<close> makes no call on the client, whatever the client is; and
  when the plan decoded without an error, it returns with the state set to exactly
  the plan.
\<close>

theorem Update_re_persists_plan:
  "calls (final (Update c req resp)) = calls resp \<and>
   (\<not> HasError (Append (Diagnostics resp) (got_diags req)) \<longrightarrow>
      returned (Update c req resp) \<and> State (final (Update c req resp)) = Some (got_data req))"
  by (simp add: Update_def Let_def)

theorem Update_re_persists_plan_witness:
  "\<not> HasError (Append (Diagnostics (new_invocation\<lparr>State := Some example_plan\<rparr>))
                  (got_diags (decoded (remote_plan StringNull)))) \<and>
   calls (final (Update example_client (decoded (remote_plan StringNull))
                   (new_invocation\<lparr>State := Some example_plan\<rparr>))) = [] \<and>
   State (final (Update example_client (decoded (remote_plan StringNull))
                   (new_invocation\<lparr>State := Some example_plan\<rparr>)))
     = Some (remote_plan StringNull)"
  using Update_re_persists_plan
          [of example_client "decoded (remote_plan StringNull)"
              "new_invocation\<lparr>State := Some example_plan\<rparr>"]
  by (simp add: decoded_def new_invocation_def)


subsection \<open>C10: null and zero cache times\<close>

text \<open>
  Claim C10. \<^verbatim>\<open>Int64ToPtr\<close> turns a null value into nil and a known value, zero
  included, into a pointer to it; \<^verbatim>\<open>IntPtrToInt64Ptr\<close> followed by
  \<^verbatim>\<open>types.Int64PointerValue\<close> turns nil into null and a pointer, to zero included,
  into the known value; so null comes back as null and a known value as itself.
  \<^verbatim>\<open>mapResponseToModel\<close> writes both cache times of the remote record through
  the second conversion, and the options that \<^verbatim>\<open>Create\<close> sends for a remote
  repository carry both cache times of the plan through the first.
\<close>

theorem cache_ttl_null_round_trip:
  "Int64ToPtr Int64Null = None \<and>
   Int64ToPtr (Int64Value v) = Some v \<and>
   Int64PointerValue (IntPtrToInt64Ptr None) = Int64Null \<and>
   Int64PointerValue (IntPtrToInt64Ptr (Some i)) = Int64Value i \<and>
   Int64PointerValue (IntPtrToInt64Ptr (Int64ToPtr Int64Null)) = Int64Null \<and>
   Int64PointerValue (IntPtrToInt64Ptr (Int64ToPtr (Int64Value v))) = Int64Value v \<and>
   (mapResponseToModel data (Some rp) w = Inr (d, ds) \<longrightarrow>
      m_FileCacheTimeTillRevalidation d
        = Int64PointerValue (IntPtrToInt64Ptr (rp_FileCacheTimeTillRevalidation rp)) \<and>
      m_MetadataCacheTimeTillRevalidation d
        = Int64PointerValue (IntPtrToInt64Ptr (rp_MetadataCacheTimeTillRevalidation rp))) \<and>
   (ValueString (m_RepositoryType (got_data req)) = ''remote'' \<and>
    \<not> String_IsNull (m_RemoteRepositoryUrl (got_data req)) \<and>
    \<not> HasError (Append (Diagnostics resp) (got_diags req)) \<longrightarrow>
      (\<exists>opts. calls (final (Create c req resp))
                 = calls resp @
                   [CallGetWorkspace (ValueString (m_WorkspaceId (got_data req))),
                    CallCreateRemoteRepository (ValueString (m_WorkspaceId (got_data req))) opts] \<and>
              ro_FileCacheTimeTillRevalidation opts
                = Int64ToPtr (m_FileCacheTimeTillRevalidation (got_data req)) \<and>
              ro_MetadataCacheTimeTillRevalidation opts
                = Int64ToPtr (m_MetadataCacheTimeTillRevalidation (got_data req))))"
proof -
  have conversions:
    "Int64ToPtr Int64Null = None" "Int64ToPtr (Int64Value v) = Some v"
    "Int64PointerValue (IntPtrToInt64Ptr None) = Int64Null"
    "Int64PointerValue (IntPtrToInt64Ptr (Some i)) = Int64Value i"
    "Int64PointerValue (IntPtrToInt64Ptr (Some v)) = Int64Value v"
    by (simp_all add: Int64ToPtr_def IntPtrToInt64Ptr_def)
  have mapped:
    "m_FileCacheTimeTillRevalidation d
       = Int64PointerValue (IntPtrToInt64Ptr (rp_FileCacheTimeTillRevalidation rp)) \<and>
     m_MetadataCacheTimeTillRevalidation d
       = Int64PointerValue (IntPtrToInt64Ptr (rp_MetadataCacheTimeTillRevalidation rp))"
    if "mapResponseToModel data (Some rp) w = Inr (d, ds)"
    using that
    by (auto simp: mapResponseToModel_def Let_def ListValueFrom_def split: option.splits)
  have sent:
    "\<exists>opts. calls (final (Create c req resp))
              = calls resp @
                [CallGetWorkspace (ValueString (m_WorkspaceId (got_data req))),
                 CallCreateRemoteRepository (ValueString (m_WorkspaceId (got_data req))) opts] \<and>
            ro_FileCacheTimeTillRevalidation opts
              = Int64ToPtr (m_FileCacheTimeTillRevalidation (got_data req)) \<and>
            ro_MetadataCacheTimeTillRevalidation opts
              = Int64ToPtr (m_MetadataCacheTimeTillRevalidation (got_data req))"
    if "ValueString (m_RepositoryType (got_data req)) = ''remote''"
      and "\<not> String_IsNull (m_RemoteRepositoryUrl (got_data req))"
      and "\<not> HasError (Append (Diagnostics resp) (got_diags req))"
    using that by (simp add: Create_def Let_def split: sum.splits prod.splits)
  from conversions mapped sent show ?thesis by simp
qed

text \<open>A null file cache time beside a metadata cache time of zero, in the plan of
  a remote repository and in a remote record.\<close>

theorem cache_ttl_null_round_trip_witness:
  "Int64ToPtr Int64Null = None \<and> Int64ToPtr (Int64Value 0) = Some 0 \<and>
   Int64PointerValue (IntPtrToInt64Ptr None) = Int64Null \<and>
   Int64PointerValue (IntPtrToInt64Ptr (Some 0)) = Int64Value 0 \<and>
   (\<exists>d. mapResponseToModel zero_model
           (Some (example_repository\<lparr>rp_MetadataCacheTimeTillRevalidation := Some 0\<rparr>)) ''ws-1''
         = Inr (d, []) \<and>
        m_FileCacheTimeTillRevalidation d = Int64Null \<and>
        m_MetadataCacheTimeTillRevalidation d = Int64Value 0) \<and>
   (\<exists>opts. calls (final (Create example_client
              (decoded ((remote_plan StringNull)
                 \<lparr>m_FileCacheTimeTillRevalidation := Int64Null,
                  m_MetadataCacheTimeTillRevalidation := Int64Value 0\<rparr>)) new_invocation))
            = [CallGetWorkspace ''example'', CallCreateRemoteRepository ''example'' opts] \<and>
          ro_FileCacheTimeTillRevalidation opts = None \<and>
          ro_MetadataCacheTimeTillRevalidation opts = Some 0)"
proof -
  let ?rp = "example_repository\<lparr>rp_MetadataCacheTimeTillRevalidation := Some 0\<rparr>"
  let ?req = "decoded ((remote_plan StringNull)
                \<lparr>m_FileCacheTimeTillRevalidation := Int64Null,
                 m_MetadataCacheTimeTillRevalidation := Int64Value 0\<rparr>)"
  obtain d where d: "mapResponseToModel zero_model (Some ?rp) ''ws-1'' = Inr (d, [])"
    using mapResponseToModel_total by blast
  note inst = cache_ttl_null_round_trip
                [where v = 0 and i = 0 and data = zero_model and rp = ?rp and w = "''ws-1''"
                   and d = d and ds = "[]" and req = ?req and resp = new_invocation
                   and c = example_client]
  have remote: "ValueString (m_RepositoryType (got_data ?req)) = ''remote'' \<and>
                \<not> String_IsNull (m_RemoteRepositoryUrl (got_data ?req)) \<and>
                \<not> HasError (Append (Diagnostics new_invocation) (got_diags ?req))"
    by (simp add: fixture_defs)
  from inst d have mapped: "m_FileCacheTimeTillRevalidation d = Int64Null \<and>
                            m_MetadataCacheTimeTillRevalidation d = Int64Value 0"
    by (simp add: example_repository_def IntPtrToInt64Ptr_def)
  from inst remote have sent:
    "\<exists>opts. calls (final (Create example_client ?req new_invocation))
              = [CallGetWorkspace ''example'', CallCreateRemoteRepository ''example'' opts] \<and>
            ro_FileCacheTimeTillRevalidation opts = None \<and>
            ro_MetadataCacheTimeTillRevalidation opts = Some 0"
    by (simp add: fixture_defs Int64ToPtr_def)
  from inst d mapped sent show ?thesis by blast
qed


end
